theory Spec2Isabelle
  imports Main
begin

section \<open>Python strings\<close>

text \<open>
  A Python \<open>str\<close> is modelled as a \<open>string\<close>, one \<open>char\<close> per code point; the model
  therefore covers the code points below 256.  \<open>isspace\<close> is the predicate behind
  \<open>str.strip\<close> and the regular expression class \<open>\s\<close> on that range: the code points
  9 to 13, 28 to 31, 32, 133 and 160.
\<close>

definition whitespace :: "char list" where
  "whitespace = [CHR 0x09, CHR 0x0A, CHR 0x0B, CHR 0x0C, CHR 0x0D, CHR 0x1C, CHR 0x1D,
     CHR 0x1E, CHR 0x1F, CHR 0x20, CHR 0x85, CHR 0xA0]"

definition isspace :: "char \<Rightarrow> bool" where
  "isspace c = (c \<in> set whitespace)"

text \<open>\<open>s.strip()\<close>\<close>

definition py_strip :: "string \<Rightarrow> string" where
  "py_strip s = rev (dropWhile isspace (rev (dropWhile isspace s)))"

text \<open>\<open>s.startswith(p)\<close>\<close>

definition startswith :: "string \<Rightarrow> string \<Rightarrow> bool" where
  "startswith s p = (take (length p) s = p)"

text \<open>\<open>s.split(c)\<close> for a one-character separator: never the empty list.\<close>

fun py_split :: "char \<Rightarrow> string \<Rightarrow> string list" where
  "py_split c [] = [[]]"
| "py_split c (x # xs) =
     (if x = c then [] # py_split c xs
      else (case py_split c xs of [] \<Rightarrow> [[x]] | l # ls \<Rightarrow> (x # l) # ls))"

text \<open>\<open>sep.join(parts)\<close>\<close>

fun py_join :: "string \<Rightarrow> string list \<Rightarrow> string" where
  "py_join sep [] = []"
| "py_join sep [x] = x"
| "py_join sep (x # y # ys) = x @ sep @ py_join sep (y # ys)"

text \<open>
  \<open>s.splitlines()\<close>: a line ends at \<open>\n\<close>, \<open>\r\<close>, \<open>\r\n\<close>, \<open>\v\<close>, \<open>\f\<close>, the
  separators 28 to 30 and NEL (133); the terminators are dropped and a final terminator
  opens no further line.
\<close>

definition linebreak :: "char \<Rightarrow> bool" where
  "linebreak c = (c \<in> set [CHR 0x0A, CHR 0x0B, CHR 0x0C, CHR 0x0D, CHR 0x1C, CHR 0x1D,
     CHR 0x1E, CHR 0x85])"

fun splitlines :: "string \<Rightarrow> string list" where
  "splitlines [] = []"
| "splitlines (c # cs) =
     (if linebreak c then
        (case cs of
           d # ds \<Rightarrow> (if c = CHR 0x0D \<and> d = CHR 0x0A then [] # splitlines ds
                      else [] # splitlines cs)
         | [] \<Rightarrow> [[]])
      else (case splitlines cs of
              [] \<Rightarrow> [[c]]
            | l # ls \<Rightarrow> (c # l) # ls))"

section \<open>Data model\<close>

text \<open>
  \<open>class Topic\<close> and \<open>class Sheet\<close>.  Python does not type the fields: the text and
  legacy decoders store strings, the zen decoder stores whatever JSON value the package
  holds.  The type parameter is the type of those field values.
\<close>

datatype 'a topic = Topic
  (tid: 'a) (title: 'a) (children: "'a topic list") (tnotes: 'a)
  (labels: "'a list") (link: 'a) (markers: "'a list")

datatype 'a sheet = Sheet (sid: 'a) (stitle: 'a) (root_topic: "'a topic option")

text \<open>
  \<open>uuid.uuid4().hex[:26]\<close> is an effect: the identifiers it returns are an injected
  sequence, and every function that constructs a Topic or a Sheet passes the rest of the
  sequence on.
\<close>

type_synonym uuids = "nat \<Rightarrow> string"

definition fresh :: "(nat \<Rightarrow> 'b) \<Rightarrow> 'b \<times> (nat \<Rightarrow> 'b)" where
  "fresh g = (g 0, \<lambda>n. g (Suc n))"

text \<open>
  \<open>Topic.__init__(title, topic_id)\<close>: \<open>topic_id or uuid4().hex[:26]\<close> draws an identifier
  only when \<open>topic_id\<close> is falsy; the caller passes \<open>None\<close> for a falsy value.  \<open>mk\<close>
  injects a Python string into the field type.
\<close>

definition Topic_init :: "(string \<Rightarrow> 'a) \<Rightarrow> uuids \<Rightarrow> 'a \<Rightarrow> 'a option \<Rightarrow> 'a topic \<times> uuids" where
  "Topic_init mk g ttl topic_id =
     (case topic_id of
        Some i \<Rightarrow> (Topic i ttl [] (mk []) [] (mk []) [], g)
      | None \<Rightarrow> (case fresh g of (u, g') \<Rightarrow> (Topic (mk u) ttl [] (mk []) [] (mk []) [], g')))"

definition Sheet_init :: "(string \<Rightarrow> 'a) \<Rightarrow> uuids \<Rightarrow> 'a \<Rightarrow> 'a option \<Rightarrow> 'a sheet \<times> uuids" where
  "Sheet_init mk g ttl sheet_id =
     (case sheet_id of
        Some i \<Rightarrow> (Sheet i ttl None, g)
      | None \<Rightarrow> (case fresh g of (u, g') \<Rightarrow> (Sheet (mk u) ttl None, g')))"

section \<open>Packages and the file system\<close>

text \<open>
  JSON values as \<open>json.loads\<close> returns them (numbers are the integers; a \<open>dict\<close> is an
  association list read with \<open>map_of\<close>), and ElementTree elements with qualified tags.
  An archive entry holds the document it serialises.  \<open>json.dumps\<close>/\<open>json.loads\<close> is
  library code that gives every JSON value back, modelled as the identity.  An entry
  \<open>Xml x\<close> holds the bytes \<open>ElementTree.write\<close> gives for the element tree \<open>x\<close>; what
  \<open>ET.fromstring\<close> makes of them is \<open>xml_fromstring\<close> below.
\<close>

datatype json = JNull | JBool bool | JInt int | JStr string
  | JArr "json list" | JObj "(string \<times> json) list"

datatype xml = Element
  (tag: string) (attrib: "(string \<times> string) list") (etext: "string option") (kids: "xml list")

datatype payload = Json json | Xml xml | Raw string

datatype disk_file = Archive "(string \<times> payload) list" | Plain string

type_synonym fs = "string \<Rightarrow> disk_file option"

datatype error = FileNotFoundError | BadZipFile | FormatUnrecognized "string list"
  | KeyError | JSONDecodeError | ParseError | AttributeError | TypeError
  | UnicodeDecodeError

text \<open>\<open>zipfile.ZipFile(path, 'r')\<close>\<close>

definition open_zip :: "fs \<Rightarrow> string \<Rightarrow> error + (string \<times> payload) list" where
  "open_zip files path =
     (case files path of
        None \<Rightarrow> Inl FileNotFoundError
      | Some (Plain _) \<Rightarrow> Inl BadZipFile
      | Some (Archive es) \<Rightarrow> Inr es)"

section \<open>Format detection\<close>

text \<open>
  \<open>detect_format\<close>.  The \<open>ValueError\<close> it raises embeds \<open>names\<close> in its message; the
  model's \<open>FormatUnrecognized\<close> carries the list.
\<close>

definition detect_format :: "fs \<Rightarrow> string \<Rightarrow> error + string" where
  "detect_format files xmind_path =
     (case open_zip files xmind_path of
        Inl e \<Rightarrow> Inl e
      | Inr es \<Rightarrow>
          (let names = map fst es in
           if ''content.json'' \<in> set names then Inr ''zen''
           else if ''content.xml'' \<in> set names then Inr ''legacy''
           else Inl (FormatUnrecognized names)))"

section \<open>Outline encoder\<close>

abbreviation NL :: char where
  "NL \<equiv> CHR 0x0A"

text \<open>\<open>_format_meta_block\<close>\<close>

definition format_meta_block :: "string topic \<Rightarrow> string" where
  "format_meta_block topic =
     py_join [NL]
       ((if labels topic \<noteq> [] then [''> Labels: '' @ py_join '', '' (labels topic)] else [])
        @ (if link topic \<noteq> [] then [''> Link: '' @ link topic] else [])
        @ (if markers topic \<noteq> [] then [''> Markers: '' @ py_join '', '' (markers topic)] else [])
        @ (if tnotes topic \<noteq> [] then map (\<lambda>nl. ''> '' @ nl) (splitlines (tnotes topic)) else []))"

text \<open>\<open>_topic_to_md\<close>\<close>

definition inline_tags :: "string topic \<Rightarrow> string list" where
  "inline_tags topic =
     (if labels topic \<noteq> [] then [''{labels: '' @ py_join '', '' (labels topic) @ ''}''] else [])
     @ (if link topic \<noteq> [] then [''{link: '' @ link topic @ ''}''] else [])
     @ (if markers topic \<noteq> [] then [''{markers: '' @ py_join '', '' (markers topic) @ ''}''] else [])"

fun topic_to_md :: "string topic \<Rightarrow> nat \<Rightarrow> string" where
  "topic_to_md (Topic i ttl kds nts lbs lnk mks) depth =
     (let indent = concat (replicate depth ''  '');
          inline = inline_tags (Topic i ttl kds nts lbs lnk mks);
          title_line = indent @ ''- '' @ ttl;
          title_line = (if inline \<noteq> [] then title_line @ ''  '' @ py_join ''  '' inline
                        else title_line)
      in py_join [NL]
           ([title_line]
            @ (if nts \<noteq> [] then map (\<lambda>nl. indent @ ''  > '' @ nl) (splitlines nts) else [])
            @ map (\<lambda>child. topic_to_md child (depth + 1)) kds))"

text \<open>\<open>sheets_to_markdown\<close>: the parts one sheet appends, then the join.\<close>

definition sheet_parts :: "nat \<Rightarrow> string sheet \<Rightarrow> string list" where
  "sheet_parts i sheet =
     (if i > 0 then [[NL] @ ''---'' @ [NL]] else [])
     @ [''# Sheet: '' @ stitle sheet @ [NL]]
     @ (case root_topic sheet of
          None \<Rightarrow> []
        | Some root \<Rightarrow>
            [[NL] @ ''## '' @ title root @ [NL]]
            @ (if format_meta_block root \<noteq> [] then [format_meta_block root] else [])
            @ [[]]
            @ map (\<lambda>child. topic_to_md child 0) (children root))"

definition sheets_to_markdown :: "string sheet list \<Rightarrow> string" where
  "sheets_to_markdown sheets =
     py_join [NL] (concat (map (\<lambda>(i, sheet). sheet_parts i sheet) (enumerate 0 sheets)))"

section \<open>Outline decoder\<close>

text \<open>Field assignments on a Topic.\<close>

definition set_title :: "'a \<Rightarrow> 'a topic \<Rightarrow> 'a topic" where
  "set_title v t = Topic (tid t) v (children t) (tnotes t) (labels t) (link t) (markers t)"

definition set_children :: "'a topic list \<Rightarrow> 'a topic \<Rightarrow> 'a topic" where
  "set_children v t = Topic (tid t) (title t) v (tnotes t) (labels t) (link t) (markers t)"

definition set_notes :: "'a \<Rightarrow> 'a topic \<Rightarrow> 'a topic" where
  "set_notes v t = Topic (tid t) (title t) (children t) v (labels t) (link t) (markers t)"

definition set_labels :: "'a list \<Rightarrow> 'a topic \<Rightarrow> 'a topic" where
  "set_labels v t = Topic (tid t) (title t) (children t) (tnotes t) v (link t) (markers t)"

definition set_link :: "'a \<Rightarrow> 'a topic \<Rightarrow> 'a topic" where
  "set_link v t = Topic (tid t) (title t) (children t) (tnotes t) (labels t) v (markers t)"

definition set_markers :: "'a list \<Rightarrow> 'a topic \<Rightarrow> 'a topic" where
  "set_markers v t = Topic (tid t) (title t) (children t) (tnotes t) (labels t) (link t) v"

text \<open>\<open>[v.strip() for v in s.split(',') if v.strip()]\<close>\<close>

definition comma_items :: "string \<Rightarrow> string list" where
  "comma_items s = filter (\<lambda>v. v \<noteq> []) (map py_strip (py_split (CHR '','') s))"

text \<open>
  \<open>re.search(r'\{key:\s*([^}]+)\}', s)\<close>.  At one start position the pattern matches
  when \<open>{key:\<close> is followed by a non-empty run of characters other than \<open>}\<close> and then
  \<open>}\<close>; the group is that run without its leading whitespace, or its last character
  when the run is whitespace only.  The search returns the leftmost match: the text
  before it, the group, the text after it.
\<close>

definition tag_match_here :: "string \<Rightarrow> string \<Rightarrow> (string \<times> string) option" where
  "tag_match_here key s =
     (let p = ''{'' @ key @ '':'' in
      if startswith s p then
        (let t = drop (length p) s;
             y = takeWhile (\<lambda>c. c \<noteq> CHR ''}'') t;
             r = dropWhile (\<lambda>c. c \<noteq> CHR ''}'') t
         in if y \<noteq> [] \<and> r \<noteq> []
            then Some (if dropWhile isspace y = [] then [last y] else dropWhile isspace y, tl r)
            else None)
      else None)"

fun re_search_tag :: "string \<Rightarrow> string \<Rightarrow> (string \<times> string \<times> string) option" where
  "re_search_tag key [] = None"
| "re_search_tag key (c # cs) =
     (case tag_match_here key (c # cs) of
        Some (grp, after) \<Rightarrow> Some ([], grp, after)
      | None \<Rightarrow>
          (case re_search_tag key cs of
             None \<Rightarrow> None
           | Some (before, grp, after) \<Rightarrow> Some (c # before, grp, after)))"

text \<open>\<open>_parse_title_meta\<close>: one pass of the loop over the three keys, then the function.\<close>

definition title_meta_step :: "string topic \<times> string \<Rightarrow> string \<Rightarrow> string topic \<times> string" where
  "title_meta_step st key =
     (case st of (topic, remaining) \<Rightarrow>
        (case re_search_tag key remaining of
           None \<Rightarrow> (topic, remaining)
         | Some (before, grp, after) \<Rightarrow>
             (let val = py_strip grp in
              ((if key = ''labels'' then set_labels (comma_items val) topic
                else if key = ''markers'' then set_markers (comma_items val) topic
                else set_link val topic),
               before @ after))))"

definition parse_title_meta :: "uuids \<Rightarrow> string \<Rightarrow> string topic \<times> uuids" where
  "parse_title_meta g raw =
     (case Topic_init id g [] None of (topic, g1) \<Rightarrow>
        (case foldl title_meta_step (topic, raw) [''labels'', ''link'', ''markers''] of
           (topic, remaining) \<Rightarrow> (set_title (py_strip remaining) topic, g1)))"

text \<open>
  The three line patterns of \<open>_parse_md_items\<close>.  \<open>\s*\<close> is greedy and the character
  after it is not whitespace, so the first group is the whole whitespace prefix.  \<open>.\<close>
  excludes the newline and \<open>$\<close> also matches before a final newline.
\<close>

definition chomp :: "string \<Rightarrow> string" where
  "chomp s = (if s \<noteq> [] \<and> last s = NL then butlast s else s)"

text \<open>\<open>re.match(r'^(\s*)- (.+)$', line)\<close>: groups 1 and 2.\<close>

definition re_item :: "string \<Rightarrow> (string \<times> string) option" where
  "re_item line =
     (if startswith (dropWhile isspace line) ''- '' then
        (let body = chomp (drop 2 (dropWhile isspace line)) in
         if body \<noteq> [] \<and> NL \<notin> set body then Some (takeWhile isspace line, body) else None)
      else None)"

text \<open>\<open>re.match(r'^(\s*)- ', nxt)\<close>: group 1.\<close>

definition re_bullet :: "string \<Rightarrow> string option" where
  "re_bullet nxt =
     (if startswith (dropWhile isspace nxt) ''- '' then Some (takeWhile isspace nxt) else None)"

text \<open>\<open>re.match(r'^(\s*)> (.*)$', nxt)\<close>: groups 1 and 2.\<close>

definition re_quote :: "string \<Rightarrow> (string \<times> string) option" where
  "re_quote nxt =
     (if startswith (dropWhile isspace nxt) ''> '' then
        (let body = chomp (drop 2 (dropWhile isspace nxt)) in
         if NL \<notin> set body then Some (takeWhile isspace nxt, body) else None)
      else None)"

text \<open>
  The inner \<open>while\<close> loop of \<open>_parse_md_items\<close> for an item indented by \<open>cur_indent\<close>:
  from \<open>child_lines\<close>, \<open>note_lines\<close> and the lines from \<open>idx\<close> on, it returns both
  lists and the lines left when it stops.
\<close>

fun collect :: "nat \<Rightarrow> string list \<Rightarrow> string list \<Rightarrow> string list
    \<Rightarrow> string list \<times> string list \<times> string list" where
  "collect cur_indent child_lines note_lines [] = (child_lines, note_lines, [])"
| "collect cur_indent child_lines note_lines (nxt # rest) =
     (if py_strip nxt = [] then collect cur_indent child_lines note_lines rest
      else
        (case re_bullet nxt of
           Some ws \<Rightarrow>
             (if length ws > cur_indent
              then collect cur_indent (child_lines @ [nxt]) note_lines rest
              else (child_lines, note_lines, nxt # rest))
         | None \<Rightarrow>
             (case re_quote nxt of
                Some (ws, body) \<Rightarrow>
                  (if child_lines = [] \<and> length ws = cur_indent + 2
                   then collect cur_indent child_lines (note_lines @ [body]) rest
                   else if length ws > cur_indent
                   then collect cur_indent (child_lines @ [nxt]) note_lines rest
                   else (child_lines, note_lines, nxt # rest))
              | None \<Rightarrow>
                  (if startswith nxt (replicate (cur_indent + 2) (CHR '' ''))
                   then collect cur_indent (child_lines @ [nxt]) note_lines rest
                   else (child_lines, note_lines, nxt # rest)))))"

lemma collect_length:
  "collect cur cl nl ls = (cl', nl', rest) \<Longrightarrow>
     length cl' + length rest \<le> length cl + length ls"
proof (induction ls arbitrary: cl nl)
  case Nil
  then show ?case by simp
next
  case (Cons nxt ls)
  then show ?case
    by (fastforce split: if_splits option.splits prod.splits)
qed

text \<open>\<open>_parse_md_items\<close>\<close>

function parse_md_items :: "uuids \<Rightarrow> string list \<Rightarrow> string topic list \<times> uuids" where
  "parse_md_items g [] = ([], g)"
| "parse_md_items g (line # rest) =
     (case re_item line of
        None \<Rightarrow> parse_md_items g rest
      | Some (ws, raw) \<Rightarrow>
          (case parse_title_meta g raw of (topic, g1) \<Rightarrow>
           (case collect (length ws) [] [] rest of (child_lines, note_lines, rest') \<Rightarrow>
            (let topic = (if note_lines \<noteq> [] then set_notes (py_join [NL] note_lines) topic
                          else topic)
             in (case (if child_lines \<noteq> [] then parse_md_items g1 child_lines else ([], g1)) of
                   (kds, g2) \<Rightarrow>
                     (let topic = (if child_lines \<noteq> [] then set_children kds topic else topic)
                      in (case parse_md_items g2 rest' of
                            (items, g3) \<Rightarrow> (topic # items, g3))))))))"
  by pat_completeness auto
termination
  apply (relation "measure (\<lambda>(g, ls). length ls)")
     apply simp
    apply simp
   apply (auto dest: collect_length[OF sym])
  done

text \<open>\<open>_apply_block_meta\<close>: \<open>re.sub(r'^>\s*', '', line)\<close>, one pass of the loop, the function.\<close>

definition unquote :: "string \<Rightarrow> string" where
  "unquote line = (if startswith line ''>'' then dropWhile isspace (drop 1 line) else line)"

definition block_meta_step :: "string topic \<times> string list \<Rightarrow> string \<Rightarrow> string topic \<times> string list" where
  "block_meta_step st line =
     (case st of (topic, note_parts) \<Rightarrow>
        (let text = unquote line in
         if startswith text ''Labels:'' then (set_labels (comma_items (drop 7 text)) topic, note_parts)
         else if startswith text ''Link:'' then (set_link (py_strip (drop 5 text)) topic, note_parts)
         else if startswith text ''Markers:'' then (set_markers (comma_items (drop 8 text)) topic, note_parts)
         else (topic, note_parts @ [text])))"

definition apply_block_meta :: "string topic \<Rightarrow> string list \<Rightarrow> string topic" where
  "apply_block_meta topic meta_lines =
     (case foldl block_meta_step (topic, []) meta_lines of
        (topic, note_parts) \<Rightarrow>
          (if note_parts \<noteq> [] then set_notes (py_join [NL] note_parts) topic else topic))"

text \<open>\<open>_parse_sheet_block\<close>: the local variables of its loop, one pass, the function.\<close>

datatype phase = Init | After_sheet | Root_meta | Body

record scan =
  phase :: phase
  sheet_title :: string
  root_title :: string
  root_meta :: "string list"
  body_lines :: "string list"

definition scan_start :: scan where
  "scan_start = \<lparr>phase = Init, sheet_title = ''Sheet 1'', root_title = [], root_meta = [],
     body_lines = []\<rparr>"

definition scan_line :: "scan \<Rightarrow> string \<Rightarrow> scan" where
  "scan_line st line =
     (let stripped = py_strip line in
      if stripped = [] then
        (if phase st = Body then st\<lparr>body_lines := body_lines st @ [line]\<rparr> else st)
      else if phase st = Init \<and> startswith stripped ''# Sheet:'' then
        st\<lparr>sheet_title := py_strip (drop (length ''# Sheet:'') stripped), phase := After_sheet\<rparr>
      else if (phase st = Init \<or> phase st = After_sheet) \<and> startswith stripped ''## '' then
        st\<lparr>root_title := py_strip (drop 3 stripped), phase := Root_meta\<rparr>
      else if phase st = Root_meta \<and> startswith stripped ''>'' then
        st\<lparr>root_meta := root_meta st @ [stripped]\<rparr>
      else st\<lparr>phase := Body, body_lines := body_lines st @ [line]\<rparr>)"

definition parse_sheet_block :: "uuids \<Rightarrow> string \<Rightarrow> string sheet option \<times> uuids" where
  "parse_sheet_block g block =
     (let st = foldl scan_line scan_start (py_split NL block) in
      if root_title st = [] \<and> body_lines st = [] then (None, g)
      else
        (case Sheet_init id g (sheet_title st) None of (sheet, g1) \<Rightarrow>
         (case Topic_init id g1 (root_title st) None of (root, g2) \<Rightarrow>
          (let root = apply_block_meta root (root_meta st) in
           (case (if body_lines st \<noteq> [] then parse_md_items g2 (body_lines st) else ([], g2)) of
              (kds, g3) \<Rightarrow>
                (let root = (if body_lines st \<noteq> [] then set_children kds root else root)
                 in (Some (Sheet (sid sheet) (stitle sheet) (Some root)), g3)))))))"

text \<open>
  \<open>re.split(r'\n---\n', md_text)\<close>: the text is cut at the leftmost occurrences of the
  separator that do not overlap.
\<close>

definition sheet_sep :: string where
  "sheet_sep = [NL] @ ''---'' @ [NL]"

fun re_split_sep :: "string \<Rightarrow> string list" where
  "re_split_sep [] = [[]]"
| "re_split_sep (c # cs) =
     (if startswith (c # cs) sheet_sep then [] # re_split_sep (drop (length sheet_sep - 1) cs)
      else (case re_split_sep cs of [] \<Rightarrow> [[c]] | l # ls \<Rightarrow> (c # l) # ls))"

text \<open>\<open>markdown_to_sheets\<close>: the loop over the blocks, then the function.\<close>

fun parse_blocks :: "uuids \<Rightarrow> string list \<Rightarrow> string sheet list \<times> uuids" where
  "parse_blocks g [] = ([], g)"
| "parse_blocks g (block # blocks) =
     (case parse_sheet_block g (py_strip block) of
        (None, g1) \<Rightarrow> parse_blocks g1 blocks
      | (Some sheet, g1) \<Rightarrow>
          (case parse_blocks g1 blocks of (sheets, g2) \<Rightarrow> (sheet # sheets, g2)))"

definition markdown_to_sheets :: "uuids \<Rightarrow> string \<Rightarrow> string sheet list \<times> uuids" where
  "markdown_to_sheets g md_text = parse_blocks g (re_split_sep md_text)"

text \<open>Structural equality that ignores identifiers compares documents with every id blanked.\<close>

fun blank_ids :: "string topic \<Rightarrow> string topic" where
  "blank_ids (Topic i ttl kds nts lbs lnk mks) = Topic [] ttl (map blank_ids kds) nts lbs lnk mks"

definition blank_sheet_ids :: "string sheet \<Rightarrow> string sheet" where
  "blank_sheet_ids sheet = Sheet [] (stitle sheet) (map_option blank_ids (root_topic sheet))"

section \<open>Zen packages\<close>

text \<open>
  What the decoder uses of Python's dynamic values: truthiness, \<open>dict.get\<close> (an
  \<open>AttributeError\<close> on a value that is no \<open>dict\<close>), and iteration (a list gives its
  elements, a \<open>dict\<close> its keys, a \<open>str\<close> its characters; a \<open>TypeError\<close> otherwise).
\<close>

fun truthy :: "json \<Rightarrow> bool" where
  "truthy JNull = False"
| "truthy (JBool b) = b"
| "truthy (JInt n) = (n \<noteq> 0)"
| "truthy (JStr s) = (s \<noteq> [])"
| "truthy (JArr xs) = (xs \<noteq> [])"
| "truthy (JObj kvs) = (kvs \<noteq> [])"

fun py_get :: "json \<Rightarrow> string \<Rightarrow> json \<Rightarrow> error + json" where
  "py_get (JObj kvs) k d = Inr (case map_of kvs k of Some v \<Rightarrow> v | None \<Rightarrow> d)"
| "py_get _ k d = Inl AttributeError"

fun py_iter :: "json \<Rightarrow> error + json list" where
  "py_iter (JArr xs) = Inr xs"
| "py_iter (JObj kvs) = Inr (map (\<lambda>kv. JStr (fst kv)) kvs)"
| "py_iter (JStr s) = Inr (map (\<lambda>c. JStr [c]) s)"
| "py_iter _ = Inl TypeError"

fun is_dict :: "json \<Rightarrow> bool" where
  "is_dict (JObj kvs) = True"
| "is_dict _ = False"

text \<open>
  \<open>''.join(op.get('insert', '') for op in ops if isinstance(op, dict))\<close>: the items that
  are no \<open>dict\<close> are skipped, and an item to join that is no \<open>str\<close> is a \<open>TypeError\<close>.
\<close>

fun join_inserts :: "json list \<Rightarrow> error + string" where
  "join_inserts [] = Inr []"
| "join_inserts (op # ops) =
     (if is_dict op then
        (case py_get op ''insert'' (JStr []) of
           Inr (JStr s) \<Rightarrow> (case join_inserts ops of Inl e \<Rightarrow> Inl e | Inr r \<Rightarrow> Inr (s @ r))
         | Inr _ \<Rightarrow> Inl TypeError
         | Inl e \<Rightarrow> Inl e)
      else join_inserts ops)"

text \<open>The notes of \<open>_parse_zen_topic\<close>: the value \<open>topic.notes\<close> ends with.\<close>

definition zen_notes :: "json \<Rightarrow> error + json" where
  "zen_notes data =
     (case py_get data ''notes'' (JObj []) of
        Inl e \<Rightarrow> Inl e
      | Inr (JObj nd) \<Rightarrow>
          (case map_of nd ''plain'' of
             Some plain \<Rightarrow> py_get plain ''content'' (JStr [])
           | None \<Rightarrow>
               (case map_of nd ''ops'' of
                  None \<Rightarrow> Inr (JStr [])
                | Some ops \<Rightarrow>
                    (case (if is_dict ops then py_get ops ''ops'' (JArr []) else Inr ops) of
                       Inl e \<Rightarrow> Inl e
                     | Inr ops \<Rightarrow>
                         (case py_iter ops of
                            Inl e \<Rightarrow> Inl e
                          | Inr items \<Rightarrow>
                              (case join_inserts items of
                                 Inl e \<Rightarrow> Inl e
                               | Inr s \<Rightarrow> Inr (JStr (py_strip s)))))))
      | Inr _ \<Rightarrow> Inr (JStr []))"

text \<open>
  \<open>[m.get('markerId', '') for m in ... if isinstance(m, dict) and m.get('markerId')]\<close>
\<close>

fun zen_markers :: "json list \<Rightarrow> json list" where
  "zen_markers [] = []"
| "zen_markers (m # ms) =
     (case m of
        JObj kvs \<Rightarrow>
          (case map_of kvs ''markerId'' of
             Some v \<Rightarrow> (if truthy v then v # zen_markers ms else zen_markers ms)
           | None \<Rightarrow> zen_markers ms)
      | _ \<Rightarrow> zen_markers ms)"

text \<open>A loop that may fail, over a list, passing the identifier sequence on.\<close>

fun each_result :: "(uuids \<Rightarrow> 'a \<Rightarrow> error + ('b \<times> uuids)) \<Rightarrow> uuids \<Rightarrow> 'a list
    \<Rightarrow> error + ('b list \<times> uuids)" where
  "each_result f g [] = Inr ([], g)"
| "each_result f g (x # xs) =
     (case f g x of
        Inl e \<Rightarrow> Inl e
      | Inr (y, g1) \<Rightarrow>
          (case each_result f g1 xs of
             Inl e \<Rightarrow> Inl e
           | Inr (ys, g2) \<Rightarrow> Inr (y # ys, g2)))"

lemma each_result_cong [fundef_cong]:
  assumes "xs = ys" "g = h" "\<And>k x. x \<in> set ys \<Longrightarrow> f k x = f' k x"
  shows "each_result f g xs = each_result f' h ys"
proof -
  have "each_result f k ys = each_result f' k ys" for k
    using assms(3)
  proof (induction ys arbitrary: k)
    case Nil
    then show ?case by simp
  next
    case (Cons y ys)
    have "f k y = f' k y" by (rule Cons.prems) simp
    moreover have "each_result f k' ys = each_result f' k' ys" for k'
      by (rule Cons.IH) (simp add: Cons.prems)
    ultimately show ?case by (simp split: sum.splits prod.splits)
  qed
  with assms(1,2) show ?thesis by simp
qed

text \<open>The values \<open>children.attached\<close> is read from: what \<open>dict.get\<close> can reach.\<close>

lemma py_get_size:
  "py_get data k d = Inr v \<Longrightarrow> size v < size data \<or> v = d"
proof (cases data)
  case (JObj kvs)
  assume "py_get data k d = Inr v"
  with JObj have v: "v = (case map_of kvs k of Some v \<Rightarrow> v | None \<Rightarrow> d)" by simp
  show ?thesis
  proof (cases "map_of kvs k")
    case None
    with v show ?thesis by simp
  next
    case (Some w)
    then have "(k, w) \<in> set kvs" by (rule map_of_SomeD)
    then have "size w < Suc (size_list (size_prod (\<lambda>_. 0) size) kvs)"
      by (induction kvs) auto
    with v Some JObj show ?thesis by simp
  qed
qed simp_all

lemma py_iter_size:
  "py_iter v = Inr xs \<Longrightarrow> x \<in> set xs \<Longrightarrow> size x < size v \<or> (\<exists>s. x = JStr s)"
proof (cases v)
  case (JArr ys)
  assume "py_iter v = Inr xs" "x \<in> set xs"
  with JArr have "x \<in> set ys" by simp
  then have "size x < Suc (size_list size ys)"
    by (induction ys) auto
  with JArr show ?thesis by simp
qed auto

text \<open>\<open>_parse_zen_topic\<close>\<close>

function parse_zen_topic :: "uuids \<Rightarrow> json \<Rightarrow> error + (json topic \<times> uuids)" where
  "parse_zen_topic g data =
     (case py_get data ''title'' (JStr []) of
        Inl e \<Rightarrow> Inl e
      | Inr ttl \<Rightarrow>
     (case py_get data ''id'' JNull of
        Inl e \<Rightarrow> Inl e
      | Inr i \<Rightarrow>
     (case Topic_init JStr g ttl (if truthy i then Some i else None) of (topic, g1) \<Rightarrow>
     (case zen_notes data of
        Inl e \<Rightarrow> Inl e
      | Inr nts \<Rightarrow>
     (case py_get data ''labels'' (JArr []) of
        Inl e \<Rightarrow> Inl e
      | Inr lv \<Rightarrow>
     (case py_iter lv of
        Inl e \<Rightarrow> Inl e
      | Inr lbs \<Rightarrow>
     (case py_get data ''href'' (JStr []) of
        Inl e \<Rightarrow> Inl e
      | Inr lnk \<Rightarrow>
     (case py_get data ''markers'' (JArr []) of
        Inl e \<Rightarrow> Inl e
      | Inr mv \<Rightarrow>
     (case py_iter mv of
        Inl e \<Rightarrow> Inl e
      | Inr ms \<Rightarrow>
     (case py_get data ''children'' (JObj []) of
        Inl e \<Rightarrow> Inl e
      | Inr children_data \<Rightarrow>
     (case py_get children_data ''attached'' (JArr []) of
        Inl e \<Rightarrow> Inl e
      | Inr av \<Rightarrow>
     (case py_iter av of
        Inl e \<Rightarrow> Inl e
      | Inr cs \<Rightarrow>
     (case each_result (\<lambda>k child. parse_zen_topic k child) g1 cs of
        Inl e \<Rightarrow> Inl e
      | Inr (kds, g2) \<Rightarrow>
          Inr (Topic (tid topic) (title topic) kds nts lbs lnk (zen_markers ms),
               g2))))))))))))))"
  by pat_completeness auto
termination
proof (relation "measure (\<lambda>(g, data). size data)")
  show "wf (measure (\<lambda>(g, data). size data))" by simp
next
  fix g :: uuids and data children_data av cs k child
  assume cd: "py_get data ''children'' (JObj []) = Inr children_data"
    and av: "py_get children_data ''attached'' (JArr []) = Inr av"
    and cs: "py_iter av = Inr cs" and mem: "child \<in> set cs"
  from cs mem have "av \<noteq> JArr []" by auto
  with py_get_size[OF av] have 2: "size av < size children_data" by auto
  from av \<open>av \<noteq> JArr []\<close> have "children_data \<noteq> JObj []" by auto
  with py_get_size[OF cd] have 3: "size children_data < size data" by auto
  from py_iter_size[OF cs mem] have "size child < size av \<or> size child = 0" by auto
  with 2 3 have "size child < size data" by auto
  then show "((k, child), (g, data)) \<in> measure (\<lambda>(g, data). size data)" by simp
qed

declare parse_zen_topic.simps [simp del]





text \<open>\<open>_topic_to_zen_dict\<close> and \<open>create_zen\<close>\<close>

fun topic_to_zen_dict :: "string topic \<Rightarrow> json" where
  "topic_to_zen_dict (Topic i ttl kds nts lbs lnk mks) =
     JObj ([(''id'', JStr i), (''class'', JStr ''topic''), (''title'', JStr ttl)]
       @ (if nts \<noteq> [] then [(''notes'', JObj [(''plain'', JObj [(''content'', JStr nts)])])] else [])
       @ (if lbs \<noteq> [] then [(''labels'', JArr (map JStr lbs))] else [])
       @ (if lnk \<noteq> [] then [(''href'', JStr lnk)] else [])
       @ (if mks \<noteq> [] then [(''markers'', JArr (map (\<lambda>m. JObj [(''markerId'', JStr m)]) mks))]
          else [])
       @ (if kds \<noteq> [] then [(''children'', JObj [(''attached'', JArr (map topic_to_zen_dict kds))])]
          else []))"

definition sheet_to_zen_dict :: "string sheet \<Rightarrow> json" where
  "sheet_to_zen_dict sheet =
     JObj ([(''id'', JStr (sid sheet)), (''class'', JStr ''sheet''), (''title'', JStr (stitle sheet))]
       @ (case root_topic sheet of
            None \<Rightarrow> []
          | Some root \<Rightarrow> [(''rootTopic'', topic_to_zen_dict root)]))"

definition zen_metadata :: json where
  "zen_metadata =
     JObj [(''creator'', JObj [(''name'', JStr ''xmind-tool''), (''version'', JStr ''1.0.0'')])]"

definition create_zen :: "fs \<Rightarrow> string sheet list \<Rightarrow> string \<Rightarrow> fs" where
  "create_zen files sheets output_path =
     files(output_path \<mapsto> Archive
       [(''content.json'', Json (JArr (map sheet_to_zen_dict sheets))),
        (''metadata.json'', Json zen_metadata)])"

section \<open>Legacy packages\<close>

definition ctag :: "string \<Rightarrow> string" where
  "ctag local = ''{urn:xmind:xmap:xmlns:content:2.0}'' @ local"

definition XLINK :: string where
  "XLINK = ''{http://www.w3.org/1999/xlink}href''"







text \<open>A loop over a list that passes the identifier sequence on.\<close>

fun each_item :: "(uuids \<Rightarrow> 'a \<Rightarrow> 'b \<times> uuids) \<Rightarrow> uuids \<Rightarrow> 'a list \<Rightarrow> 'b list \<times> uuids" where
  "each_item f g [] = ([], g)"
| "each_item f g (x # xs) =
     (case f g x of (y, g1) \<Rightarrow>
        (case each_item f g1 xs of (ys, g2) \<Rightarrow> (y # ys, g2)))"

lemma each_item_cong [fundef_cong]:
  assumes "xs = ys" "g = h" "\<And>k x. x \<in> set ys \<Longrightarrow> f k x = f' k x"
  shows "each_item f g xs = each_item f' h ys"
proof -
  have "each_item f k ys = each_item f' k ys" for k
    using assms(3)
  proof (induction ys arbitrary: k)
    case Nil
    then show ?case by simp
  next
    case (Cons y ys)
    have "f k y = f' k y" by (rule Cons.prems) simp
    moreover have "each_item f k' ys = each_item f' k' ys" for k'
      by (rule Cons.IH) (simp add: Cons.prems)
    ultimately show ?case by (simp split: prod.splits)
  qed
  with assms(1,2) show ?thesis by simp
qed








fun xml_eol :: "string \<Rightarrow> string" where
  "xml_eol [] = []"
| "xml_eol [c] = [if c = CHR 0x0D then CHR 0x0A else c]"
| "xml_eol (c # d # ds) =
     (if c = CHR 0x0D \<and> d = CHR 0x0A then CHR 0x0A # xml_eol ds
      else (if c = CHR 0x0D then CHR 0x0A else c) # xml_eol (d # ds))"


fun xml_parsed :: "xml \<Rightarrow> xml" where
  "xml_parsed (Element t a tx ks) =
     Element t a
       (case tx of None \<Rightarrow> None | Some s \<Rightarrow> (if s = [] then None else Some (xml_eol s)))
       (map xml_parsed ks)"




text \<open>
  \<open>_topic_to_legacy_xml\<close> and \<open>create_legacy\<close>.  \<open>str(int(time.time() * 1000))\<close> is an
  effect: the readings are an injected sequence, one reading per element in the order of
  the calls.  The source appends the new element to \<open>parent\<close>; here the element is
  returned and the caller places it.
\<close>

type_synonym clock = "nat \<Rightarrow> string"

fun topic_to_legacy_xml :: "clock \<Rightarrow> string topic \<Rightarrow> xml \<times> clock"
  and topics_to_legacy_xml :: "clock \<Rightarrow> string topic list \<Rightarrow> xml list \<times> clock" where
  "topic_to_legacy_xml clk (Topic i ttl kds nts lbs lnk mks) =
     (case fresh clk of (ts, clk1) \<Rightarrow>
     (case topics_to_legacy_xml clk1 kds of (child_elems, clk2) \<Rightarrow>
        (Element (ctag ''topic'')
           ([(''id'', i), (''timestamp'', ts)] @ (if lnk \<noteq> [] then [(XLINK, lnk)] else []))
           None
           ([Element (ctag ''title'') [] (Some ttl) []]
            @ (if nts \<noteq> [] then
                 [Element (ctag ''notes'') [] None [Element (ctag ''plain'') [] (Some nts) []]]
               else [])
            @ (if lbs \<noteq> [] then
                 [Element (ctag ''labels'') [] None
                    (map (\<lambda>lbl. Element (ctag ''label'') [] (Some lbl) []) lbs)]
               else [])
            @ (if mks \<noteq> [] then
                 [Element (ctag ''marker-refs'') [] None
                    (map (\<lambda>mid. Element (ctag ''marker-ref'') [(''marker-id'', mid)] None []) mks)]
               else [])
            @ (if kds \<noteq> [] then
                 [Element (ctag ''children'') [] None
                    [Element (ctag ''topics'') [(''type'', ''attached'')] None child_elems]]
               else [])),
         clk2)))"
| "topics_to_legacy_xml clk [] = ([], clk)"
| "topics_to_legacy_xml clk (child # rest) =
     (case topic_to_legacy_xml clk child of (e, clk1) \<Rightarrow>
     (case topics_to_legacy_xml clk1 rest of (es, clk2) \<Rightarrow> (e # es, clk2)))"

definition sheet_to_legacy_xml :: "clock \<Rightarrow> string sheet \<Rightarrow> xml \<times> clock" where
  "sheet_to_legacy_xml clk sheet =
     (case fresh clk of (ts, clk1) \<Rightarrow>
     (case (case root_topic sheet of
              None \<Rightarrow> ([], clk1)
            | Some root \<Rightarrow> (case topic_to_legacy_xml clk1 root of (e, clk2) \<Rightarrow> ([e], clk2))) of
        (topic_elems, clk2) \<Rightarrow>
          (Element (ctag ''sheet'') [(''id'', sid sheet), (''timestamp'', ts)] None
             (topic_elems @ [Element (ctag ''title'') [] (Some (stitle sheet)) []]),
           clk2)))"

fun sheets_to_legacy_xml :: "clock \<Rightarrow> string sheet list \<Rightarrow> xml list \<times> clock" where
  "sheets_to_legacy_xml clk [] = ([], clk)"
| "sheets_to_legacy_xml clk (sheet # sheets) =
     (case sheet_to_legacy_xml clk sheet of (e, clk1) \<Rightarrow>
     (case sheets_to_legacy_xml clk1 sheets of (es, clk2) \<Rightarrow> (e # es, clk2)))"

definition legacy_manifest :: string where
  "legacy_manifest =
     ''<?xml version=\"1.0\" encoding=\"UTF-8\" standalone=\"no\"?>'' @ [NL]
     @ ''<manifest xmlns=\"urn:xmind:xmap:xmlns:manifest:1.0\">'' @ [NL]
     @ ''  <file-entry full-path=\"content.xml\" media-type=\"text/xml\"/>'' @ [NL]
     @ ''  <file-entry full-path=\"META-INF/\" media-type=\"\"/>'' @ [NL]
     @ ''  <file-entry full-path=\"META-INF/manifest.xml\" media-type=\"text/xml\"/>'' @ [NL]
     @ ''</manifest>''"

definition create_legacy :: "clock \<Rightarrow> fs \<Rightarrow> string sheet list \<Rightarrow> string \<Rightarrow> fs" where
  "create_legacy clk files sheets output_path =
     files(output_path \<mapsto> Archive
       [(''content.xml'',
           Xml (Element (ctag ''xmap-content'') [(''version'', ''2.0'')] None
                  (fst (sheets_to_legacy_xml clk sheets)))),
        (''META-INF/manifest.xml'', Raw legacy_manifest)])"

section \<open>Update and the command handlers\<close>

text \<open>\<open>open(path, 'r', encoding='utf-8').read()\<close>: an archive is not text.\<close>

definition read_text :: "fs \<Rightarrow> string \<Rightarrow> error + string" where
  "read_text files path =
     (case files path of
        None \<Rightarrow> Inl FileNotFoundError
      | Some (Plain s) \<Rightarrow> Inr s
      | Some (Archive _) \<Rightarrow> Inl UnicodeDecodeError)"

text \<open>
  \<open>update_xmind\<close>: the file system it leaves, and the path it returns or the exception
  that leaves it.
\<close>

definition update_xmind :: "uuids \<Rightarrow> clock \<Rightarrow> fs \<Rightarrow> string \<Rightarrow> string \<Rightarrow> fs \<times> (error + string)" where
  "update_xmind g clk files xmind_path md_path =
     (case detect_format files xmind_path of
        Inl e \<Rightarrow> (files, Inl e)
      | Inr fmt \<Rightarrow>
          (case read_text files md_path of
             Inl e \<Rightarrow> (files, Inl e)
           | Inr md_text \<Rightarrow>
               (let sheets = fst (markdown_to_sheets g md_text) in
                ((if fmt = ''zen'' then create_zen files sheets xmind_path
                  else create_legacy clk files sheets xmind_path),
                 Inr xmind_path))))"

text \<open>
  What a command handler prints, and what it returns: the file system, and the exit code
  with the printed messages or the exception.  \<open>get_memory_path\<close> is computed by
  \<open>tempfile\<close>, \<open>os.path\<close> and \<open>pathlib\<close>; it is the parameter \<open>mem_path\<close>.
\<close>

datatype message = Usage | FileMissing string | NoSheetsParsed
  | Created string string string | Updated string string

type_synonym outcome = "fs \<times> (error + (nat \<times> message list))"

text \<open>\<open>fmt\<close> as \<open>cmd_create\<close> reads it from \<open>args\<close>\<close>

definition format_arg :: "string list \<Rightarrow> string" where
  "format_arg args =
     (if ''--format'' \<in> set args then
        (let fi = length (takeWhile (\<lambda>a. a \<noteq> ''--format'') args) in
         if fi + 1 < length args then args ! (fi + 1) else ''zen'')
      else ''zen'')"

definition cmd_create :: "(string \<Rightarrow> string \<Rightarrow> string) \<Rightarrow> uuids \<Rightarrow> clock \<Rightarrow> fs \<Rightarrow> string
    \<Rightarrow> string list \<Rightarrow> outcome" where
  "cmd_create mem_path g clk files session_id args =
     (if length args < 2 then (files, Inr (1, [Usage]))
      else
        (let output_path = args ! 0; md_path = args ! 1; fmt = format_arg args in
         if files md_path = None then (files, Inr (1, [FileMissing md_path]))
         else
           (case read_text files md_path of
              Inl e \<Rightarrow> (files, Inl e)
            | Inr md_text \<Rightarrow>
                (let sheets = fst (markdown_to_sheets g md_text) in
                 if sheets = [] then (files, Inr (1, [NoSheetsParsed]))
                 else
                   (let files1 = (if fmt = ''legacy'' then create_legacy clk files sheets output_path
                                  else create_zen files sheets output_path);
                        mem = mem_path session_id output_path
                    in (files1(mem \<mapsto> Plain md_text), Inr (0, [Created output_path fmt mem])))))))"

definition cmd_update :: "(string \<Rightarrow> string \<Rightarrow> string) \<Rightarrow> uuids \<Rightarrow> clock \<Rightarrow> fs \<Rightarrow> string
    \<Rightarrow> string list \<Rightarrow> outcome" where
  "cmd_update mem_path g clk files session_id args =
     (if length args < 2 then (files, Inr (1, [Usage]))
      else
        (let xmind_path = args ! 0; md_path = args ! 1 in
         if files xmind_path = None then (files, Inr (1, [FileMissing xmind_path]))
         else if files md_path = None then (files, Inr (1, [FileMissing md_path]))
         else
           (case update_xmind g clk files xmind_path md_path of
              (files1, Inl e) \<Rightarrow> (files1, Inl e)
            | (files1, Inr _) \<Rightarrow>
                (let mem = mem_path session_id xmind_path in
                 (case read_text files1 md_path of
                    Inl e \<Rightarrow> (files1, Inl e)
                  | Inr md_text \<Rightarrow>
                      (files1(mem \<mapsto> Plain md_text), Inr (0, [Updated xmind_path mem])))))))"

section \<open>Example inputs\<close>

text \<open>An identifier sequence and a clock for the examples.\<close>

definition example_ids :: uuids where
  "example_ids n = ''id'' @ replicate n (CHR ''a'')"

definition example_clock :: clock where
  "example_clock n = ''1700000000000''"

definition example_mem_path :: "string \<Rightarrow> string \<Rightarrow> string" where
  "example_mem_path session_id xmind_path = ''/tmp/skills-xmind-parsed/'' @ session_id @ ''/memory.md''"

text \<open>The outline text of the scenario of the specification, and what it is encoded back to.\<close>

definition scenario_text :: string where
  "scenario_text = ''# Sheet: S'' @ [NL, NL] @ ''## Root'' @ [NL, NL]
     @ ''- Child A  {labels: x, y}'' @ [NL] @ ''  > a note'' @ [NL] @ ''- Child B'' @ [NL]"

definition scenario_reencoded :: string where
  "scenario_reencoded = ''# Sheet: S'' @ [NL, NL, NL] @ ''## Root'' @ [NL, NL, NL]
     @ ''- Child A  {labels: x, y}'' @ [NL] @ ''  > a note'' @ [NL] @ ''- Child B''"

text \<open>A file system with a zen package, a legacy package and two outline files.\<close>

definition example_files :: fs where
  "example_files =
     [''zen.xmind'' \<mapsto> Archive [(''content.json'',
          Json (JArr [JObj [(''id'', JStr ''s1''), (''title'', JStr ''Old'')]]))],
      ''legacy.xmind'' \<mapsto> Archive [(''content.xml'',
          Xml (Element (ctag ''xmap-content'') [] None []))],
      ''notes.txt'' \<mapsto> Plain ''not a package'',
      ''empty.md'' \<mapsto> Plain [],
      ''new.md'' \<mapsto> Plain scenario_text]"

text \<open>Two sheet blocks: one with no sheet heading, one with a sheet heading after the root heading.\<close>

definition block_without_heading :: string where
  "block_without_heading = ''## R''"

definition block_with_late_heading :: string where
  "block_with_late_heading = ''## R'' @ [NL] @ ''# Sheet: X'' @ [NL] @ ''- a''"

text \<open>A line that \<open>_parse_sheet_block\<close> would read as the sheet heading in its first phase.\<close>

definition heading :: "string \<Rightarrow> bool" where
  "heading l = startswith (py_strip l) ''# Sheet:''"

text \<open>An item line and the lines after it: a note, a child with a note of its own, a quoted line that ends the item.\<close>

definition item_line :: string where
  "item_line = ''- A''"

definition item_rest :: "string list" where
  "item_rest = [''  > n1'', ''  - B'', ''  > n2'', ''> n3'']"

section \<open>Documents the package codecs give back\<close>









section \<open>Documents the outline codec gives back\<close>











section \<open>The lines of the encoded outline\<close>




definition item_raw :: "string topic \<Rightarrow> string" where
  "item_raw t = title t @ (if inline_tags t \<noteq> [] then ''  '' @ py_join ''  '' (inline_tags t) else [])"

definition indent :: "nat \<Rightarrow> string" where
  "indent d = concat (replicate d ''  '')"

fun topic_lines :: "nat \<Rightarrow> string topic \<Rightarrow> string list" where
  "topic_lines d (Topic i ttl kds nts lbs lnk mks) =
     [indent d @ ''- '' @ item_raw (Topic i ttl kds nts lbs lnk mks)]
     @ map (\<lambda>nl. indent d @ ''  > '' @ nl) (splitlines nts)
     @ concat (map (topic_lines (d + 1)) kds)"

definition meta_lines :: "string topic \<Rightarrow> string list" where
  "meta_lines r =
     (if labels r \<noteq> [] then [''> '' @ ''Labels: '' @ py_join '', '' (labels r)] else [])
     @ (if link r \<noteq> [] then [''> '' @ ''Link: '' @ link r] else [])
     @ (if markers r \<noteq> [] then [''> '' @ ''Markers: '' @ py_join '', '' (markers r)] else [])
     @ map (\<lambda>nl. ''> '' @ nl) (splitlines (tnotes r))"

definition sheet_lines :: "string sheet \<Rightarrow> string list" where
  "sheet_lines s =
     (case root_topic s of
        None \<Rightarrow> [''# Sheet: '' @ stitle s, []]
      | Some r \<Rightarrow>
          [''# Sheet: '' @ stitle s, [], [], ''## '' @ title r, []] @ meta_lines r @ [[]]
          @ concat (map (topic_lines 0) (children r)))"




section \<open>Properties of format detection\<close>

text \<open>
  C5: for every ZIP package stored at a path, \<open>detect_format\<close> answers "zen" when an entry
  is named content.json, whatever else the archive holds; otherwise "legacy" when an entry
  is named content.xml; otherwise it fails with the error that carries the entry names
  found.  The answer does not depend on the contents of the entries: replacing every
  content by any other leaves the answer as it is.
\<close>

theorem detect_format_by_names:
  "detect_format (files(p \<mapsto> Archive es)) p =
     (if ''content.json'' \<in> set (map fst es) then Inr ''zen''
      else if ''content.xml'' \<in> set (map fst es) then Inr ''legacy''
      else Inl (FormatUnrecognized (map fst es)))
   \<and> detect_format (files(p \<mapsto> Archive (map (\<lambda>(n, c). (n, f n c)) es))) p =
       detect_format (files(p \<mapsto> Archive es)) p"
proof -
  have "map fst (map (\<lambda>(n, c). (n, f n c)) es) = map fst es"
    by (induction es) auto
  then show ?thesis
    by (simp add: detect_format_def open_zip_def Let_def)
qed

section \<open>The scenario of the specification\<close>

text \<open>
  C8, as amended: the outline text of the scenario decodes to exactly one Sheet titled "S"
  whose root topic is titled "Root" and has exactly two children, "Child A" with labels
  x, y and notes "a note", and "Child B" with no labels, link, markers or notes (the
  identifiers are the first four of the sequence).  Encoding that document gives the text
  \<open>scenario_reencoded\<close>, which has two blank lines after each heading and no final
  newline, and which decodes to the same document up to identifiers.
\<close>

theorem scenario_decodes_and_reencodes:
  "fst (markdown_to_sheets g scenario_text) =
     [Sheet (g 0) ''S'' (Some (Topic (g 1) ''Root''
        [Topic (g 2) ''Child A'' [] ''a note'' [''x'', ''y''] [] [],
         Topic (g 3) ''Child B'' [] [] [] [] []] [] [] [] []))]
   \<and> sheets_to_markdown (fst (markdown_to_sheets g scenario_text)) = scenario_reencoded
   \<and> map blank_sheet_ids (fst (markdown_to_sheets g' scenario_reencoded)) =
       map blank_sheet_ids (fst (markdown_to_sheets g scenario_text))"
  by code_simp

text \<open>
  C8 as stated fails: encoding the decoded scenario does not give back the input text.
\<close>

theorem scenario_reencoding_differs:
  "sheets_to_markdown (fst (markdown_to_sheets example_ids scenario_text)) \<noteq> scenario_text"
  by code_simp

section \<open>Properties of update\<close>

text \<open>
  C3: \<open>update_xmind\<close> writes nothing unless format detection and the reading and parsing
  of the replacement outline have succeeded.  When it ends with an exception the file
  system is the one it started from; and when the file system has changed, detection
  answered a variant, the outline file was read, and the file system is the one the
  matching encoder leaves from the parsed sheets.
\<close>

theorem update_writes_only_after_parse:
  "(isl (snd (update_xmind g clk files xp mp)) \<longrightarrow> fst (update_xmind g clk files xp mp) = files)
   \<and> (fst (update_xmind g clk files xp mp) \<noteq> files \<longrightarrow>
        (\<exists>fmt md. detect_format files xp = Inr fmt \<and> read_text files mp = Inr md
           \<and> fst (update_xmind g clk files xp mp) =
               (if fmt = ''zen'' then create_zen files (fst (markdown_to_sheets g md)) xp
                else create_legacy clk files (fst (markdown_to_sheets g md)) xp)))"
  by (auto simp: update_xmind_def Let_def split: sum.splits)

text \<open>
  Both hypotheses of C3 at concrete inputs: updating a file that is no package fails and
  leaves the example file system as it was; updating the zen package changes it.
\<close>

theorem update_writes_only_after_parse_witness:
  "isl (snd (update_xmind example_ids example_clock example_files ''notes.txt'' ''new.md''))
   \<and> fst (update_xmind example_ids example_clock example_files ''notes.txt'' ''new.md'') = example_files
   \<and> fst (update_xmind example_ids example_clock example_files ''zen.xmind'' ''new.md'') \<noteq> example_files
   \<and> detect_format example_files ''zen.xmind'' = Inr ''zen''
   \<and> read_text example_files ''new.md'' = Inr scenario_text"
proof -
  have 1: "isl (snd (update_xmind example_ids example_clock example_files ''notes.txt'' ''new.md''))"
    by code_simp
  have "fst (update_xmind example_ids example_clock example_files ''zen.xmind'' ''new.md'') ''zen.xmind''
      \<noteq> example_files ''zen.xmind''"
    by code_simp
  then have 2: "fst (update_xmind example_ids example_clock example_files ''zen.xmind'' ''new.md'') \<noteq> example_files"
    by auto
  have 3: "detect_format example_files ''zen.xmind'' = Inr ''zen''" by code_simp
  have 4: "read_text example_files ''new.md'' = Inr scenario_text" by code_simp
  from 1 2 3 4 update_writes_only_after_parse[of example_ids example_clock example_files "''notes.txt''" "''new.md''"]
    update_writes_only_after_parse[of example_ids example_clock example_files "''zen.xmind''" "''new.md''"]
  show ?thesis by blast
qed




text \<open>
  C4 fails on the update path.  For the empty outline file, from which no sheet is parsed
  (the decoder returns the empty list), \<open>cmd_create\<close> prints the no-sheets error, returns
  1 and leaves the package as it was; \<open>cmd_update\<close> has no such check: it returns 0 and
  has overwritten the package with a document of no sheets.
\<close>

theorem update_with_no_sheets_overwrites:
  "fst (cmd_update example_mem_path example_ids example_clock example_files ''s''
          [''zen.xmind'', ''empty.md'']) ''zen.xmind''
     = Some (Archive [(''content.json'', Json (JArr [])), (''metadata.json'', Json zen_metadata)])
   \<and> snd (cmd_update example_mem_path example_ids example_clock example_files ''s''
          [''zen.xmind'', ''empty.md''])
     = Inr (0, [Updated ''zen.xmind'' ''/tmp/skills-xmind-parsed/s/memory.md''])
   \<and> fst (markdown_to_sheets example_ids []) = []
   \<and> fst (cmd_create example_mem_path example_ids example_clock example_files ''s''
          [''zen.xmind'', ''empty.md'']) ''zen.xmind'' = example_files ''zen.xmind''
   \<and> snd (cmd_create example_mem_path example_ids example_clock example_files ''s''
          [''zen.xmind'', ''empty.md'']) = Inr (1, [NoSheetsParsed])"
  by code_simp

section \<open>Properties of the zen decoder\<close>

text \<open>
  C7 fails for a notes object whose \<open>plain\<close> value is no object, and for one whose \<open>ops\<close>
  value cannot be iterated: \<open>_parse_zen_topic\<close> raises instead of leaving the notes empty.
\<close>

theorem zen_plain_not_a_dict_raises:
  "parse_zen_topic g (JObj [(''title'', JStr ''T''), (''notes'', JObj [(''plain'', JStr ''text'')])])
     = Inl AttributeError
   \<and> parse_zen_topic g (JObj [(''title'', JStr ''T''), (''notes'', JObj [(''ops'', JInt 5)])])
     = Inl TypeError"
  by (simp add: parse_zen_topic.simps Topic_init_def fresh_def zen_notes_def)

section \<open>Facts about the string functions\<close>

lemma startswith_Nil: "startswith s [] = True"
  by (simp add: startswith_def)

lemma startswith_Cons:
  "startswith s (c # p) = (case s of [] \<Rightarrow> False | x # t \<Rightarrow> x = c \<and> startswith t p)"
  by (cases s) (auto simp: startswith_def)

lemma isspace_simps:
  "\<not> isspace (CHR ''>'')" "\<not> isspace (CHR ''-'')" "isspace (CHR '' '')" "isspace NL"
  by (simp_all add: isspace_def whitespace_def)

lemma py_strip_eq_Nil: "py_strip s = [] \<longleftrightarrow> (\<forall>c\<in>set s. isspace c)"
proof
  assume "\<forall>c\<in>set s. isspace c"
  then have d: "dropWhile isspace s = []" by simp
  show "py_strip s = []" unfolding py_strip_def d by simp
next
  assume "py_strip s = []"
  then have a: "\<forall>c\<in>set (dropWhile isspace s). isspace c"
    by (simp add: py_strip_def)
  have "dropWhile isspace s = []"
  proof (cases "dropWhile isspace s")
    case Nil then show ?thesis .
  next
    case (Cons x xs)
    then have "\<not> isspace x" by (simp add: dropWhile_eq_Cons_conv)
    with a Cons show ?thesis by simp
  qed
  then show "\<forall>c\<in>set s. isspace c" by simp
qed

section \<open>Properties of the sheet block decoder\<close>

lemma scan_line_blank:
  "py_strip l = [] \<Longrightarrow> phase st \<noteq> Body \<Longrightarrow> scan_line st l = st"
  by (simp add: scan_line_def)

lemma scan_line_keeps_title:
  "phase st \<noteq> Init \<Longrightarrow>
     phase (scan_line st l) \<noteq> Init \<and> sheet_title (scan_line st l) = sheet_title st"
  by (simp add: scan_line_def Let_def)

lemma scan_fold_keeps_title:
  "phase st \<noteq> Init \<Longrightarrow>
     phase (foldl scan_line st ls) \<noteq> Init \<and> sheet_title (foldl scan_line st ls) = sheet_title st"
proof (induction ls arbitrary: st)
  case Nil
  then show ?case by simp
next
  case (Cons l ls)
  from scan_line_keeps_title[OF Cons.prems, of l] Cons.IH[of "scan_line st l"]
  show ?case by simp
qed

lemma scan_line_body_mono: "set (body_lines st) \<subseteq> set (body_lines (scan_line st l))"
  by (auto simp: scan_line_def Let_def)

lemma scan_fold_body_mono: "set (body_lines st) \<subseteq> set (body_lines (foldl scan_line st ls))"
proof (induction ls arbitrary: st)
  case Nil
  then show ?case by simp
next
  case (Cons l ls)
  from scan_line_body_mono[of st l] Cons.IH[of "scan_line st l"] show ?case by auto
qed

lemma scan_line_heading_body:
  "phase st \<noteq> Init \<Longrightarrow> heading l \<Longrightarrow> l \<in> set (body_lines (scan_line st l))"
  by (auto simp: scan_line_def Let_def heading_def startswith_Cons startswith_Nil
      split: list.splits)

lemma scan_fold_heading_body:
  "phase st \<noteq> Init \<Longrightarrow> l \<in> set ls \<Longrightarrow> heading l \<Longrightarrow>
     l \<in> set (body_lines (foldl scan_line st ls))"
proof (induction ls arbitrary: st)
  case Nil
  then show ?case by simp
next
  case (Cons x ls)
  have ph: "phase (scan_line st x) \<noteq> Init"
    using scan_line_keeps_title[OF Cons.prems(1)] by simp
  show ?case
  proof (cases "l = x")
    case True
    with scan_line_heading_body[OF Cons.prems(1) Cons.prems(3)]
      scan_fold_body_mono[of "scan_line st l" ls]
    show ?thesis by auto
  next
    case False
    with Cons.prems have "l \<in> set ls" by simp
    from Cons.IH[OF ph this Cons.prems(3)] show ?thesis by simp
  qed
qed

lemma scan_fold_skips_blank:
  "phase st = Init \<Longrightarrow>
     foldl scan_line st ls = foldl scan_line st (dropWhile (\<lambda>l. py_strip l = []) ls)"
proof (induction ls)
  case Nil
  then show ?case by simp
next
  case (Cons l ls)
  then show ?case by (simp add: scan_line_blank)
qed

lemma scan_first_line:
  "py_strip x \<noteq> [] \<Longrightarrow>
     phase (scan_line scan_start x) \<noteq> Init
     \<and> sheet_title (scan_line scan_start x) =
         (if heading x then py_strip (drop 8 (py_strip x)) else ''Sheet 1'')"
  by (auto simp: scan_line_def Let_def heading_def scan_start_def startswith_Cons
      startswith_Nil split: list.splits)

lemma scan_title:
  assumes "nb = dropWhile (\<lambda>l. py_strip l = []) ls"
  shows "sheet_title (foldl scan_line scan_start ls) =
     (if nb \<noteq> [] \<and> heading (hd nb) then py_strip (drop 8 (py_strip (hd nb))) else ''Sheet 1'')"
proof -
  have eq: "foldl scan_line scan_start ls = foldl scan_line scan_start nb"
    unfolding assms by (rule scan_fold_skips_blank) (simp add: scan_start_def)
  show ?thesis
  proof (cases nb)
    case Nil
    with eq show ?thesis by (simp add: scan_start_def)
  next
    case (Cons x rest)
    have "py_strip x \<noteq> []"
      using Cons assms by (simp add: dropWhile_eq_Cons_conv)
    from scan_first_line[OF this] scan_fold_keeps_title[of "scan_line scan_start x" rest]
    show ?thesis using eq Cons by simp
  qed
qed

lemma scan_later_heading:
  assumes "nb = dropWhile (\<lambda>l. py_strip l = []) ls" "l \<in> set (tl nb)" "heading l"
  shows "l \<in> set (body_lines (foldl scan_line scan_start ls))"
proof -
  have eq: "foldl scan_line scan_start ls = foldl scan_line scan_start nb"
    unfolding assms(1) by (rule scan_fold_skips_blank) (simp add: scan_start_def)
  from assms(2) obtain x rest where nb: "nb = x # rest" and l: "l \<in> set rest"
    by (cases nb) auto
  have "py_strip x \<noteq> []"
    using nb assms(1) by (simp add: dropWhile_eq_Cons_conv)
  from scan_first_line[OF this] have "phase (scan_line scan_start x) \<noteq> Init" by simp
  from scan_fold_heading_body[OF this l assms(3)] eq nb show ?thesis by simp
qed

lemma no_heading_first:
  assumes "nb = dropWhile (\<lambda>l. py_strip l = []) ls" "\<forall>l\<in>set ls. \<not> heading l"
  shows "\<not> (nb \<noteq> [] \<and> heading (hd nb))"
proof
  assume a: "nb \<noteq> [] \<and> heading (hd nb)"
  then have "hd nb \<in> set nb" by simp
  then have "hd nb \<in> set ls" unfolding assms(1) by (rule set_dropWhileD)
  with assms(2) a show False by simp
qed

lemma parse_sheet_block_title:
  "fst (parse_sheet_block g block) = Some sheet \<Longrightarrow>
     stitle sheet = sheet_title (foldl scan_line scan_start (py_split NL block))"
  by (auto simp: parse_sheet_block_def Let_def Sheet_init_def Topic_init_def fresh_def
      split: if_splits prod.splits)

text \<open>
  C10: a sheet block that produces a Sheet and has no line reading \<open># Sheet:\<close> gives a
  Sheet titled "Sheet 1".  More precisely the title is decided by the first non-blank line
  of the block alone: it is the rest of that line when the line reads \<open># Sheet:\<close>, and
  "Sheet 1" otherwise, whatever follows.  Every later line that reads \<open># Sheet:\<close> is one
  of the body lines, the lines the root's children are parsed from.
\<close>

theorem sheet_heading_only_first:
  assumes "st = foldl scan_line scan_start (py_split NL block)"
    and "nb = dropWhile (\<lambda>l. py_strip l = []) (py_split NL block)"
  shows "(fst (parse_sheet_block g block) = Some sheet
            \<and> (\<forall>l\<in>set (py_split NL block). \<not> startswith (py_strip l) ''# Sheet:'')
          \<longrightarrow> stitle sheet = ''Sheet 1'')
       \<and> (fst (parse_sheet_block g block) = Some sheet
          \<longrightarrow> stitle sheet =
               (if nb \<noteq> [] \<and> startswith (py_strip (hd nb)) ''# Sheet:''
                then py_strip (drop 8 (py_strip (hd nb))) else ''Sheet 1''))
       \<and> (\<forall>l\<in>set (tl nb). startswith (py_strip l) ''# Sheet:'' \<longrightarrow> l \<in> set (body_lines st))"
proof (intro conjI impI ballI)
  assume a: "fst (parse_sheet_block g block) = Some sheet
     \<and> (\<forall>l\<in>set (py_split NL block). \<not> startswith (py_strip l) ''# Sheet:'')"
  then have "\<forall>l\<in>set (py_split NL block). \<not> heading l" by (simp add: heading_def)
  from no_heading_first[OF assms(2) this] scan_title[OF assms(2)]
  have "sheet_title (foldl scan_line scan_start (py_split NL block)) = ''Sheet 1''" by auto
  with parse_sheet_block_title[of g block sheet] a
  show "stitle sheet = ''Sheet 1''" by simp
next
  assume "fst (parse_sheet_block g block) = Some sheet"
  from parse_sheet_block_title[OF this] scan_title[OF assms(2)]
  show "stitle sheet =
     (if nb \<noteq> [] \<and> startswith (py_strip (hd nb)) ''# Sheet:''
      then py_strip (drop 8 (py_strip (hd nb))) else ''Sheet 1'')"
    by (simp add: heading_def)
next
  fix l
  assume "l \<in> set (tl nb)" "startswith (py_strip l) ''# Sheet:''"
  with scan_later_heading[OF assms(2), of l] show "l \<in> set (body_lines st)"
    by (simp add: heading_def assms(1))
qed

text \<open>
  C10 at a block with no sheet heading, and at a block whose sheet heading comes after the
  root heading.
\<close>

theorem sheet_heading_only_first_witness:
  "fst (parse_sheet_block example_ids block_without_heading) = Some (Sheet ''id'' ''Sheet 1'' (Some (Topic ''ida'' ''R'' [] [] [] [] [])))
   \<and> list_all (\<lambda>l. \<not> startswith (py_strip l) ''# Sheet:'') (py_split NL block_without_heading)
   \<and> stitle (Sheet ''id'' ''Sheet 1'' (Some (Topic ''ida'' ''R'' [] [] [] [] []))) = ''Sheet 1''
   \<and> ''# Sheet: X'' \<in> set (tl (dropWhile (\<lambda>l. py_strip l = []) (py_split NL block_with_late_heading)))
   \<and> ''# Sheet: X'' \<in> set (body_lines (foldl scan_line scan_start (py_split NL block_with_late_heading)))"
proof -
  have 1: "fst (parse_sheet_block example_ids block_without_heading) = Some (Sheet ''id'' ''Sheet 1'' (Some (Topic ''ida'' ''R'' [] [] [] [] [])))"
    by code_simp
  have 2: "list_all (\<lambda>l. \<not> startswith (py_strip l) ''# Sheet:'') (py_split NL block_without_heading)"
    by code_simp
  have 3: "''# Sheet: X'' \<in> set (tl (dropWhile (\<lambda>l. py_strip l = []) (py_split NL block_with_late_heading)))"
    by code_simp
  have 4: "startswith (py_strip ''# Sheet: X'') ''# Sheet:''" by code_simp
  from 3 4 sheet_heading_only_first[OF refl refl, where block=block_with_late_heading]
  have 5: "''# Sheet: X'' \<in> set (body_lines (foldl scan_line scan_start (py_split NL block_with_late_heading)))" by blast
  from 1 2 have "stitle (Sheet ''id'' ''Sheet 1'' (Some (Topic ''ida'' ''R'' [] [] [] [] []))) = ''Sheet 1''"
    using sheet_heading_only_first[OF refl refl, where block=block_without_heading and g=example_ids] by (simp add: list_all_iff)
  with 1 2 3 5 show ?thesis by simp
qed


section \<open>Properties of the item decoder\<close>

lemma re_quote_Some:
  assumes "re_quote nxt = Some (ws, body)"
  shows "py_strip nxt \<noteq> [] \<and> re_bullet nxt = None \<and> ws = takeWhile isspace nxt"
proof -
  from assms have sw: "startswith (dropWhile isspace nxt) ''> ''" and ws: "ws = takeWhile isspace nxt"
    by (auto simp: re_quote_def Let_def split: if_splits)
  from sw obtain t where t: "dropWhile isspace nxt = CHR ''>'' # t"
    by (auto simp: startswith_Cons split: list.splits)
  then have "CHR ''>'' \<in> set nxt"
    by (metis list.set_intros(1) set_dropWhileD)
  then have 1: "py_strip nxt \<noteq> []"
    using isspace_simps(1) by (auto simp: py_strip_eq_Nil)
  from t have 2: "re_bullet nxt = None"
    by (simp add: re_bullet_def startswith_Cons)
  from 1 2 ws show ?thesis by simp
qed

lemma title_meta_step_keeps:
  "tnotes (fst (title_meta_step st key)) = tnotes (fst st)
   \<and> children (fst (title_meta_step st key)) = children (fst st)
   \<and> tid (fst (title_meta_step st key)) = tid (fst st)"
  by (cases st) (auto simp: title_meta_step_def Let_def set_labels_def set_markers_def
        set_link_def split: option.splits)

lemma title_meta_fold_keeps:
  "tnotes (fst (foldl title_meta_step st keys)) = tnotes (fst st)
   \<and> children (fst (foldl title_meta_step st keys)) = children (fst st)
   \<and> tid (fst (foldl title_meta_step st keys)) = tid (fst st)"
  by (induction keys arbitrary: st) (simp_all add: title_meta_step_keeps)

lemma parse_title_meta_fresh:
  "\<exists>t. parse_title_meta g raw = (t, \<lambda>n. g (Suc n)) \<and> tnotes t = [] \<and> children t = [] \<and> tid t = g 0"
proof -
  obtain t r where f: "foldl title_meta_step (Topic (g 0) [] [] [] [] [] [], raw)
      [''labels'', ''link'', ''markers''] = (t, r)"
    by fastforce
  from title_meta_fold_keeps[of "(Topic (g 0) [] [] [] [] [] [], raw)" "[''labels'', ''link'', ''markers'']"]
  have "tnotes t = [] \<and> children t = [] \<and> tid t = g 0" unfolding f by simp
  moreover have "parse_title_meta g raw = (set_title (py_strip r) t, \<lambda>n. g (Suc n))"
    unfolding parse_title_meta_def Topic_init_def fresh_def using f by simp
  ultimately show ?thesis by (simp add: set_title_def)
qed

lemma parse_md_items_item:
  assumes "re_item line = Some (iws, raw)"
    and "collect (length iws) [] [] lines = (cl, nl, lines')"
    and "parse_title_meta g raw = (t0, g1)"
    and "parse_md_items g1 cl = (kds, g2)"
    and "parse_md_items g2 lines' = (items, g3)"
  shows "parse_md_items g (line # lines) =
     (Topic (tid t0) (title t0) (if cl \<noteq> [] then kds else children t0)
        (if nl \<noteq> [] then py_join [NL] nl else tnotes t0) (labels t0) (link t0) (markers t0)
      # items, g3)"
proof (cases "cl = []")
  case True
  with assms(4) have "g2 = g1" by simp
  with assms True show ?thesis
    by (simp add: Let_def set_notes_def set_children_def)
next
  case False
  with assms show ?thesis
    by (simp add: Let_def set_notes_def set_children_def)
qed

text \<open>
  C6: in the loop that collects the lines of an item indented by \<open>cur\<close>, a quoted line
  (one matching optional whitespace, \<open>>\<close>, a space, the rest) is attached as a note exactly when
  its indent is \<open>cur + 2\<close> and no child line has been collected yet; otherwise, when its
  indent is greater than \<open>cur\<close>, it becomes a child line; otherwise it ends the item and
  stays for the next one.  The item's notes are the collected note lines joined by
  newlines, its children are the child lines parsed by \<open>_parse_md_items\<close> itself, and the
  items after it are parsed from the lines the loop left.
\<close>

theorem quoted_line_attribution:
  "(re_quote nxt = Some (ws, body) \<longrightarrow>
      collect cur child_lines note_lines (nxt # rest) =
        (if child_lines = [] \<and> length ws = cur + 2
         then collect cur child_lines (note_lines @ [body]) rest
         else if length ws > cur
         then collect cur (child_lines @ [nxt]) note_lines rest
         else (child_lines, note_lines, nxt # rest)))
   \<and> (re_item line = Some (iws, raw) \<and> collect (length iws) [] [] lines = (cl, nl, lines')
        \<longrightarrow> (\<exists>t items g'. parse_md_items g (line # lines) = (t # items, g')
               \<and> tnotes t = py_join [NL] nl
               \<and> children t = fst (parse_md_items (\<lambda>n. g (Suc n)) cl)
               \<and> items = fst (parse_md_items (snd (parse_md_items (\<lambda>n. g (Suc n)) cl)) lines')))"
proof (intro conjI impI)
  assume q: "re_quote nxt = Some (ws, body)"
  from re_quote_Some[OF q] q
  show "collect cur child_lines note_lines (nxt # rest) =
        (if child_lines = [] \<and> length ws = cur + 2
         then collect cur child_lines (note_lines @ [body]) rest
         else if length ws > cur
         then collect cur (child_lines @ [nxt]) note_lines rest
         else (child_lines, note_lines, nxt # rest))"
    by simp
next
  assume a: "re_item line = Some (iws, raw) \<and> collect (length iws) [] [] lines = (cl, nl, lines')"
  from parse_title_meta_fresh[of g raw] obtain t0 where
    t0: "parse_title_meta g raw = (t0, \<lambda>n. g (Suc n))" "tnotes t0 = []" "children t0 = []"
    by auto
  obtain kds g2 where k: "parse_md_items (\<lambda>n. g (Suc n)) cl = (kds, g2)" by fastforce
  obtain items g3 where i: "parse_md_items g2 lines' = (items, g3)" by fastforce
  have k0: "cl = [] \<longrightarrow> kds = []" using k by auto
  have nl0: "nl = [] \<longrightarrow> py_join [NL] nl = []" by auto
  from a have a1: "re_item line = Some (iws, raw)"
    and a2: "collect (length iws) [] [] lines = (cl, nl, lines')" by simp_all
  from parse_md_items_item[OF a1 a2 t0(1) k i] t0(2,3) k i k0 nl0
  show "\<exists>t items g'. parse_md_items g (line # lines) = (t # items, g')
               \<and> tnotes t = py_join [NL] nl
               \<and> children t = fst (parse_md_items (\<lambda>n. g (Suc n)) cl)
               \<and> items = fst (parse_md_items (snd (parse_md_items (\<lambda>n. g (Suc n)) cl)) lines')"
    by auto
qed

text \<open>
  C6 at the example item: its first quoted line is attached as a note, and the item ends
  up with that note, the children parsed from the two lines collected as child lines, and
  the last quoted line left over.
\<close>

theorem quoted_line_attribution_witness:
  "re_quote ''  > n1'' = Some (''  '', ''n1'')
   \<and> collect 0 [] [] (''  > n1'' # tl item_rest) = collect 0 [] ([] @ [''n1'']) (tl item_rest)
   \<and> re_item item_line = Some ([], ''A'')
   \<and> collect (length ([] :: string)) [] [] item_rest = ([''  - B'', ''  > n2''], [''n1''], [''> n3''])
   \<and> (\<exists>t items g'. parse_md_items example_ids (item_line # item_rest) = (t # items, g')
        \<and> tnotes t = py_join [NL] [''n1'']
        \<and> children t = fst (parse_md_items (\<lambda>n. example_ids (Suc n)) [''  - B'', ''  > n2''])
        \<and> items = fst (parse_md_items
             (snd (parse_md_items (\<lambda>n. example_ids (Suc n)) [''  - B'', ''  > n2''])) [''> n3'']))"
proof -
  have 1: "re_quote ''  > n1'' = Some (''  '', ''n1'')" by code_simp
  have 2: "re_item item_line = Some ([], ''A'')" by code_simp
  have 3: "collect (length ([] :: string)) [] [] item_rest
       = ([''  - B'', ''  > n2''], [''n1''], [''> n3''])" by code_simp
  have len: "length ''  '' = 0 + 2" by simp
  note T1 = quoted_line_attribution[where nxt="''  > n1''" and ws="''  ''" and body="''n1''"
      and cur=0 and child_lines="[]" and note_lines="[]" and rest="tl item_rest",
      THEN conjunct1, THEN mp, OF 1]
  have 4: "collect 0 [] [] (''  > n1'' # tl item_rest) = collect 0 [] ([] @ [''n1'']) (tl item_rest)"
    using T1 len by (simp only: refl if_True simp_thms)
  note 5 = quoted_line_attribution[where line=item_line and iws="[]" and raw="''A''"
      and lines=item_rest and cl="[''  - B'', ''  > n2'']"
      and nl="[''n1'']" and lines'="[''> n3'']" and g=example_ids,
      THEN conjunct2, THEN mp, OF conjI[OF 2 3]]
  from 1 4 2 3 5 show ?thesis by (intro conjI)
qed


section \<open>Properties of the package codecs\<close>







lemma ctag_eq [simp]: "ctag a = ctag b \<longleftrightarrow> a = b"
  by (simp add: ctag_def)

lemma xml_parsed_tag [simp]: "tag (xml_parsed e) = tag e"
  by (cases e) simp



























section \<open>Properties of the outline codec\<close>

subsection \<open>Splitting and joining\<close>

lemma py_split_nonempty: "py_split c s \<noteq> []"
  by (induction s) (auto split: list.splits)



lemma py_split_lines_free: "l \<in> set (py_split c s) \<Longrightarrow> c \<notin> set l"
proof (induction s arbitrary: l)
  case Nil
  then show ?case by simp
next
  case (Cons x s)
  obtain h t where s: "py_split c s = h # t"
    using py_split_nonempty[of c s] by (cases "py_split c s") auto
  with Cons show ?case by (auto split: if_splits)
qed







subsection \<open>Trimming\<close>






subsection \<open>Comma-separated values\<close>







subsection \<open>Searching an inline tag\<close>





















subsection \<open>The patterns on encoded lines\<close>







subsection \<open>The inner loop on encoded lines\<close>





subsection \<open>The lines of a safe topic\<close>








subsection \<open>Decoding the lines of safe topics\<close>





subsection \<open>Cutting the encoded text at the separators\<close>













subsection \<open>The metadata block of a root topic\<close>










subsection \<open>The loop of the sheet block decoder on the lines of a sheet\<close>










subsection \<open>Trimming a block\<close>







subsection \<open>The lines of a safe topic and of a safe root\<close>











subsection \<open>The lines of a sheet\<close>






subsection \<open>Decoding the block of a sheet\<close>



subsection \<open>The blocks of a document\<close>


lemma sheet_lines_nonempty: "sheet_lines s \<noteq> []"
  by (simp add: sheet_lines_def split: option.splits)








end
